theory Spec2Isabelle
  imports Main "HOL-Library.Word"
begin

section \<open>The constant vocabulary (src/common.h, enum TeXConstants)\<close>

text \<open>
  A C++ enumeration is a list of enumerators, each with or without an explicit value.
  An enumerator without a value gets the value of the one before it plus one, the first
  one gets zero. \<open>enum_values\<close> is that rule; \<open>TeXConstants_decl\<close> is the
  enumerator list of \<open>enum TeXConstants\<close>, in the order of the header.
\<close>

fun enum_values :: "int \<Rightarrow> (string \<times> int option) list \<Rightarrow> (string \<times> int) list" where
  "enum_values nxt [] = []"
| "enum_values nxt ((name, None) # es) = (name, nxt) # enum_values (nxt + 1) es"
| "enum_values nxt ((name, Some v) # es) = (name, v) # enum_values (v + 1) es"

definition alignment_decl :: "(string \<times> int option) list" where
  "alignment_decl =
    [(''ALIGN_LEFT'', Some 0), (''ALIGN_RIGHT'', None), (''ALIGN_CENTER'', None),
     (''ALIGN_TOP'', None), (''ALIGN_BOTTOM'', None), (''ALIGN_NONE'', None)]"

definition space_decl :: "(string \<times> int option) list" where
  "space_decl =
    [(''THINMUSKIP'', Some 1), (''MEDMUSKIP'', Some 2), (''THICKMUSKIP'', Some 3),
     (''NEGTHINMUSKIP'', Some (- 1)), (''NEGMEDMUSKIP'', Some (- 2)),
     (''NEGTHICKMUSKP'', Some (- 3)), (''QUAD'', Some 3)]"

definition script_decl :: "(string \<times> int option) list" where
  "script_decl =
    [(''SCRIPT_NORMAL'', Some 0), (''SCRIPT_NOLIMITS'', None), (''SCRIPT_LIMITS'', None)]"

definition atom_type_decl :: "(string \<times> int option) list" where
  "atom_type_decl =
    [(''TYPE_ORDINARY'', Some 0), (''TYPE_BIG_OPERATOR'', None),
     (''TYPE_BINARY_OPERATOR'', None), (''TYPE_RELATION'', None), (''TYPE_OPENING'', None),
     (''TYPE_CLOSING'', None), (''TYPE_PUNCTUATION'', None), (''TYPE_INNER'', None),
     (''TYPE_ACCENT'', Some 10), (''TYPE_INTERTEXT'', None), (''TYPE_MULTICOLUMN'', None),
     (''TYPE_HLINE'', None), (''TYPE_MULTIROW'', None)]"

definition delim_decl :: "(string \<times> int option) list" where
  "delim_decl =
    [(''DELIM_BRACE'', Some 0), (''DELIM_SQUARE_BRACKET'', None), (''DELIM_BRACKET'', None),
     (''DELIM_LEFT_ARROW'', None), (''DELIM_RIGHT_ARROW'', None),
     (''DELIM_LEFT_RIGHT_ARROW'', None), (''DELIM_DOUBLE_LEFT_ARROW'', None),
     (''DELIM_DOUBLE_RIGHT_ARROW'', None), (''DELIM_DOUBLE_LEFT_RIGHT_ARROW'', None),
     (''DELIM_SIGNLE_LINE'', None), (''DELIM_DOUBLE_LINE'', None)]"

definition style_decl :: "(string \<times> int option) list" where
  "style_decl =
    [(''STYLE_DISPLAY'', Some 0), (''STYLE_TEXT'', Some 2), (''STYLE_SCRIPT'', Some 4),
     (''STYLE_SCRIPT_SCRIPT'', Some 6)]"

definition unit_decl :: "(string \<times> int option) list" where
  "unit_decl =
    [(''UNIT_EM'', Some 0), (''UNIT_EX'', None), (''UNIT_PIXEL'', None), (''UNIT_POINT'', None),
     (''UNIT_PICA'', None), (''UNIT_MU'', None), (''UNIT_CM'', None), (''UNIT_MM'', None),
     (''UNIT_IN'', None), (''UNIT_SP'', None), (''UNIT_PT'', None), (''UNIT_DD'', None),
     (''UNIT_CC'', None), (''UNIT_X8'', None)]"

definition TeXConstants_decl :: "(string \<times> int option) list" where
  "TeXConstants_decl =
    alignment_decl @ space_decl @ script_decl @ atom_type_decl @ delim_decl @ style_decl
      @ unit_decl"

definition TeXConstants :: "string \<Rightarrow> int option" where
  "TeXConstants = map_of (enum_values 0 TeXConstants_decl)"

definition STYLE_DISPLAY :: int where "STYLE_DISPLAY = the (TeXConstants ''STYLE_DISPLAY'')"
definition STYLE_TEXT :: int where "STYLE_TEXT = the (TeXConstants ''STYLE_TEXT'')"
definition STYLE_SCRIPT :: int where "STYLE_SCRIPT = the (TeXConstants ''STYLE_SCRIPT'')"
definition STYLE_SCRIPT_SCRIPT :: int where
  "STYLE_SCRIPT_SCRIPT = the (TeXConstants ''STYLE_SCRIPT_SCRIPT'')"

definition TYPE_ORDINARY :: int where "TYPE_ORDINARY = the (TeXConstants ''TYPE_ORDINARY'')"
definition TYPE_BIG_OPERATOR :: int where
  "TYPE_BIG_OPERATOR = the (TeXConstants ''TYPE_BIG_OPERATOR'')"
definition TYPE_BINARY_OPERATOR :: int where
  "TYPE_BINARY_OPERATOR = the (TeXConstants ''TYPE_BINARY_OPERATOR'')"
definition TYPE_RELATION :: int where "TYPE_RELATION = the (TeXConstants ''TYPE_RELATION'')"
definition TYPE_OPENING :: int where "TYPE_OPENING = the (TeXConstants ''TYPE_OPENING'')"
definition TYPE_CLOSING :: int where "TYPE_CLOSING = the (TeXConstants ''TYPE_CLOSING'')"
definition TYPE_PUNCTUATION :: int where
  "TYPE_PUNCTUATION = the (TeXConstants ''TYPE_PUNCTUATION'')"
definition TYPE_INNER :: int where "TYPE_INNER = the (TeXConstants ''TYPE_INNER'')"
definition TYPE_ACCENT :: int where "TYPE_ACCENT = the (TeXConstants ''TYPE_ACCENT'')"
definition TYPE_INTERTEXT :: int where "TYPE_INTERTEXT = the (TeXConstants ''TYPE_INTERTEXT'')"
definition TYPE_MULTICOLUMN :: int where
  "TYPE_MULTICOLUMN = the (TeXConstants ''TYPE_MULTICOLUMN'')"
definition TYPE_HLINE :: int where "TYPE_HLINE = the (TeXConstants ''TYPE_HLINE'')"
definition TYPE_MULTIROW :: int where "TYPE_MULTIROW = the (TeXConstants ''TYPE_MULTIROW'')"

section \<open>The box model (src/box/box.cpp)\<close>

text \<open>
  Boxes are objects held through \<open>sptr<Box>\<close> (a shared pointer), so two pointers may
  name one object and a method mutates its receiver in place. The model is an explicit
  heap: a pointer is an address, the heap maps the addresses of live objects to their
  state, and a null or dangling pointer is an address the heap does not map.

  The class declarations (box/box.h) are not part of the sources at hand. The type of the
  four metrics is therefore a parameter \<open>'m\<close> (the code only copies them), and the
  dynamic class of an object, on which a virtual call dispatches, is the field \<open>kind\<close>.
\<close>

type_synonym addr = nat

text \<open>
  Modelled from the spec: \<open>GlyphBox f\<close> stands for the leaf variants that override
  \<open>lastFontId\<close>; their code is not in box.cpp. The spec says that for a leaf glyph box the
  font id is intrinsic, so such a box answers the query with its own font id \<open>f\<close> and
  changes nothing. The other three are the classes of box.cpp: \<open>Box\<close>, \<open>BoxGroup\<close>
  with its \<open>_children\<close> and \<open>DecorBox\<close> with its \<open>_base\<close>.
\<close>

datatype kind =
    Box
  | GlyphBox int
  | BoxGroup (children: "addr list")
  | DecorBox (base: addr)

record 'm box =
  width :: 'm
  height :: 'm
  depth :: 'm
  shift :: 'm
  kind :: kind

type_synonym 'm heap = "addr \<Rightarrow> 'm box option"

text \<open>
  How a call can end without a result: \<open>UndefinedBehaviour\<close> is what C++ gives to a
  dereference of a null pointer, to an iterator outside its vector and to an index
  outside its vector (no exception is raised, nothing is guaranteed afterwards);
  \<open>OutOfRange\<close> is the exception \<open>std::out_of_range\<close> of a checked access;
  \<open>OutOfFuel\<close> says that a recursion has not returned within the depth the model was
  given.
\<close>

datatype failure = OutOfRange | UndefinedBehaviour | OutOfFuel

fun andThen :: "failure + 'a \<Rightarrow> ('a \<Rightarrow> failure + 'b) \<Rightarrow> failure + 'b" where
  "andThen (Inl e) f = Inl e"
| "andThen (Inr x) f = f x"

definition deref :: "'m heap \<Rightarrow> addr \<Rightarrow> failure + 'm box" where
  "deref h p = (case h p of None \<Rightarrow> Inl UndefinedBehaviour | Some b \<Rightarrow> Inr b)"

subsection \<open>Box::copyMetrics\<close>

text \<open>
  One assignment \<open>_f = box->_f\<close> of the receiver \<open>this\<close>: it reads the field of the
  object \<open>box\<close> points to and writes the field of the receiver, in the heap as it is at
  that moment. \<open>sel\<close> and \<open>upd\<close> are the selector and the update of the field.
\<close>

definition assign ::
  "('m box \<Rightarrow> 'm) \<Rightarrow> (('m \<Rightarrow> 'm) \<Rightarrow> 'm box \<Rightarrow> 'm box) \<Rightarrow> addr \<Rightarrow> addr \<Rightarrow> 'm heap
    \<Rightarrow> failure + 'm heap" where
  "assign sel upd this box h =
     andThen (deref h box) (\<lambda>b.
     andThen (deref h this) (\<lambda>t.
       Inr (h(this \<mapsto> upd (\<lambda>_. sel b) t))))"

definition copyMetrics :: "addr \<Rightarrow> addr \<Rightarrow> 'm heap \<Rightarrow> failure + 'm heap" where
  "copyMetrics this box h =
     andThen (assign width width_update this box h) (\<lambda>h1.
     andThen (assign height height_update this box h1) (\<lambda>h2.
     andThen (assign depth depth_update this box h2) (\<lambda>h3.
       assign shift shift_update this box h3)))"

subsection \<open>BoxGroup::add\<close>

text \<open>
  Both overloads are methods of \<open>BoxGroup\<close>: a receiver that is not a live
  \<open>BoxGroup\<close> is no valid call. \<open>add\<close> is \<open>_children.push_back(box)\<close>;
  \<open>add_pos\<close> is \<open>_children.insert(_children.begin() + pos, box)\<close>, where the iterator
  \<open>begin() + pos\<close> is valid exactly for \<open>0 \<le> pos \<le> size()\<close> and the code makes no check
  of its own.
\<close>

definition add :: "addr \<Rightarrow> addr \<Rightarrow> 'm heap \<Rightarrow> failure + 'm heap" where
  "add this box h =
     andThen (deref h this) (\<lambda>t.
       case kind t of
         BoxGroup cs \<Rightarrow> Inr (h(this \<mapsto> t\<lparr>kind := BoxGroup (cs @ [box])\<rparr>))
       | _ \<Rightarrow> Inl UndefinedBehaviour)"

definition add_pos :: "addr \<Rightarrow> int \<Rightarrow> addr \<Rightarrow> 'm heap \<Rightarrow> failure + 'm heap" where
  "add_pos this pos box h =
     andThen (deref h this) (\<lambda>t.
       case kind t of
         BoxGroup cs \<Rightarrow>
           if 0 \<le> pos \<and> pos \<le> int (length cs)
           then Inr (h(this \<mapsto>
                  t\<lparr>kind := BoxGroup (take (nat pos) cs @ box # drop (nat pos) cs)\<rparr>))
           else Inl UndefinedBehaviour
       | _ \<Rightarrow> Inl UndefinedBehaviour)"

subsection \<open>lastFontId\<close>

text \<open>
  \<open>int i = _children.size() - 1\<close>: the subtraction is in \<open>size_t\<close> (64 bits, unsigned),
  its result is then narrowed to \<open>int\<close> (32 bits, two's complement).
\<close>

definition last_index :: "nat \<Rightarrow> int" where
  "last_index n = sint (ucast ((word_of_nat n :: 64 word) - 1) :: 32 word)"

definition group_children :: "'m heap \<Rightarrow> addr \<Rightarrow> failure + addr list" where
  "group_children h this =
     (case deref h this of
        Inl e \<Rightarrow> Inl e
      | Inr t \<Rightarrow> (case kind t of BoxGroup cs \<Rightarrow> Inr cs | _ \<Rightarrow> Inl UndefinedBehaviour))"

text \<open>
  The loop of \<open>BoxGroup::lastFontId\<close>, from its test on: \<open>i\<close> and \<open>fid\<close> are the
  variables \<open>i\<close> and \<open>id\<close>, \<open>call\<close> is the virtual call \<open>lastFontId()\<close> on a child.
  The method is not \<open>const\<close>, so every call takes the heap and returns it; the loop
  reads \<open>_children[i]\<close> in the heap the call before it returned.
\<close>

function lastFontId_loop ::
  "(addr \<Rightarrow> 'm heap \<Rightarrow> failure + int \<times> 'm heap) \<Rightarrow> int \<Rightarrow> addr \<Rightarrow> int \<Rightarrow> int \<Rightarrow> 'm heap
    \<Rightarrow> failure + int \<times> 'm heap" where
  "lastFontId_loop call NO_FONT this i fid h =
     (if 0 \<le> i \<and> fid = NO_FONT then
        (case group_children h this of
           Inl e \<Rightarrow> Inl e
         | Inr cs \<Rightarrow>
             if nat i < length cs then
               (case call (cs ! nat i) h of
                  Inl e \<Rightarrow> Inl e
                | Inr (fid', h') \<Rightarrow> lastFontId_loop call NO_FONT this (i - 1) fid' h')
             else Inl UndefinedBehaviour)
      else Inr (fid, h))"
  by pat_completeness auto
termination
  by (relation "measure (\<lambda>(call, NO_FONT, this, i, fid, h). nat (i + 1))") auto

declare lastFontId_loop.simps [simp del]

text \<open>
  The virtual method \<open>lastFontId\<close>, dispatched on the class of the receiver:
  \<open>Box::lastFontId\<close>, \<open>BoxGroup::lastFontId\<close> and \<open>DecorBox::lastFontId\<close>.
  \<open>FontContext::NO_FONT\<close> is declared outside the sources at hand (unimath/uni_font.h),
  so the sentinel is the parameter \<open>NO_FONT\<close>. The recursion follows pointers, which
  may form a cycle; the second argument bounds the depth of the nested calls.
\<close>

primrec lastFontId :: "int \<Rightarrow> nat \<Rightarrow> addr \<Rightarrow> 'm heap \<Rightarrow> failure + int \<times> 'm heap" where
  "lastFontId NO_FONT 0 this h = Inl OutOfFuel"
| "lastFontId NO_FONT (Suc n) this h =
     (case deref h this of
        Inl e \<Rightarrow> Inl e
      | Inr t \<Rightarrow>
          (case kind t of
             Box \<Rightarrow> Inr (NO_FONT, h)
           | GlyphBox f \<Rightarrow> Inr (f, h)
           | BoxGroup cs \<Rightarrow>
               lastFontId_loop (lastFontId NO_FONT n) NO_FONT this
                 (last_index (length cs)) NO_FONT h
           | DecorBox b \<Rightarrow> lastFontId NO_FONT n b h))"

subsection \<open>Notions the properties are stated with\<close>

text \<open>
  \<open>box_tree d h a\<close>: the object at \<open>a\<close> is the root of a box tree of height at most
  \<open>d\<close>. The object is live, and every child of a group and the base of a decoration is
  the root of a box tree of height at most \<open>d - 1\<close>; so a box never contains itself.
\<close>

primrec box_tree :: "nat \<Rightarrow> 'm heap \<Rightarrow> addr \<Rightarrow> bool" where
  "box_tree 0 h a = False"
| "box_tree (Suc d) h a =
     (case h a of
        None \<Rightarrow> False
      | Some t \<Rightarrow>
          (case kind t of
             Box \<Rightarrow> True
           | GlyphBox f \<Rightarrow> True
           | BoxGroup cs \<Rightarrow> list_all (box_tree d h) cs
           | DecorBox b \<Rightarrow> box_tree d h b))"

text \<open>
  The spec's words for the query of a group, on the list \<open>fs\<close> of the children's results
  in child order: scan from the last to the first, the first result that is not the
  sentinel; the sentinel when there is none.
\<close>

definition first_font_from_last :: "int \<Rightarrow> int list \<Rightarrow> int" where
  "first_font_from_last NO_FONT fs =
     (case find (\<lambda>f. f \<noteq> NO_FONT) (rev fs) of Some f \<Rightarrow> f | None \<Rightarrow> NO_FONT)"

text \<open>
  \<open>wrapped h k d b\<close>: from \<open>d\<close>, following the base pointer of a \<open>DecorBox\<close> \<open>k\<close> times
  arrives at \<open>b\<close>.
\<close>

fun wrapped :: "'m heap \<Rightarrow> nat \<Rightarrow> addr \<Rightarrow> addr \<Rightarrow> bool" where
  "wrapped h 0 d b = (d = b)"
| "wrapped h (Suc k) d b =
     (case h d of
        None \<Rightarrow> False
      | Some t \<Rightarrow> (case kind t of DecorBox d' \<Rightarrow> wrapped h k d' b | _ \<Rightarrow> False))"

text \<open>
  A heap to evaluate on: the group at 0 holds the glyph box at 1 (font id 5) and the plain
  box at 2; the decoration at 3 wraps the group, the decoration at 4 wraps the one at 3.
\<close>

definition example_group :: "int box" where
  "example_group = \<lparr>width = 12, height = 7, depth = 2, shift = 0, kind = BoxGroup [1, 2]\<rparr>"

definition example_glyph :: "int box" where
  "example_glyph = \<lparr>width = 5, height = 6, depth = 1, shift = 4, kind = GlyphBox 5\<rparr>"

definition example_plain :: "int box" where
  "example_plain = \<lparr>width = 7, height = 1, depth = 0, shift = - 3, kind = Box\<rparr>"

definition example_decor :: "int box" where
  "example_decor = \<lparr>width = 12, height = 8, depth = 2, shift = 1, kind = DecorBox 0\<rparr>"

definition example_decor2 :: "int box" where
  "example_decor2 = \<lparr>width = 13, height = 9, depth = 3, shift = 1, kind = DecorBox 3\<rparr>"

definition example_heap :: "int heap" where
  "example_heap =
     [0 \<mapsto> example_group, 1 \<mapsto> example_glyph, 2 \<mapsto> example_plain, 3 \<mapsto> example_decor,
      4 \<mapsto> example_decor2]"

section \<open>The constants have the documented values\<close>

text \<open>
  C9. The math style constants are \<open>STYLE_DISPLAY = 0\<close>, \<open>STYLE_TEXT = 2\<close>,
  \<open>STYLE_SCRIPT = 4\<close> and \<open>STYLE_SCRIPT_SCRIPT = 6\<close>; the atom type constants run from
  \<open>TYPE_ORDINARY = 0\<close> to \<open>TYPE_INNER = 7\<close> one by one, and from \<open>TYPE_ACCENT = 10\<close>
  to \<open>TYPE_MULTIROW = 14\<close> one by one, with the gap between 7 and 10.
\<close>

theorem TeXConstants_values:
  "STYLE_DISPLAY = 0 \<and> STYLE_TEXT = 2 \<and> STYLE_SCRIPT = 4 \<and> STYLE_SCRIPT_SCRIPT = 6
    \<and> TYPE_ORDINARY = 0 \<and> TYPE_BIG_OPERATOR = 1 \<and> TYPE_BINARY_OPERATOR = 2
    \<and> TYPE_RELATION = 3 \<and> TYPE_OPENING = 4 \<and> TYPE_CLOSING = 5 \<and> TYPE_PUNCTUATION = 6
    \<and> TYPE_INNER = 7 \<and> TYPE_ACCENT = 10 \<and> TYPE_INTERTEXT = 11 \<and> TYPE_MULTICOLUMN = 12
    \<and> TYPE_HLINE = 13 \<and> TYPE_MULTIROW = 14"
  by (simp add: STYLE_DISPLAY_def STYLE_TEXT_def STYLE_SCRIPT_def STYLE_SCRIPT_SCRIPT_def
      TYPE_ORDINARY_def TYPE_BIG_OPERATOR_def TYPE_BINARY_OPERATOR_def TYPE_RELATION_def
      TYPE_OPENING_def TYPE_CLOSING_def TYPE_PUNCTUATION_def TYPE_INNER_def TYPE_ACCENT_def
      TYPE_INTERTEXT_def TYPE_MULTICOLUMN_def TYPE_HLINE_def TYPE_MULTIROW_def
      TeXConstants_def TeXConstants_decl_def alignment_decl_def space_decl_def script_decl_def
      atom_type_decl_def delim_decl_def style_decl_def unit_decl_def)

section \<open>The example heap\<close>

lemma example_heap_at:
  "example_heap 0 = Some example_group"
  "example_heap (Suc 0) = Some example_glyph"
  "example_heap 2 = Some example_plain"
  "example_heap 3 = Some example_decor"
  "example_heap 4 = Some example_decor2"
  by (simp_all add: example_heap_def)

lemma example_kinds:
  "kind example_group = BoxGroup [1, 2]"
  "kind example_glyph = GlyphBox 5"
  "kind example_plain = Box"
  "kind example_decor = DecorBox 0"
  "kind example_decor2 = DecorBox 3"
  by (simp_all add: example_group_def example_glyph_def example_plain_def example_decor_def
      example_decor2_def)

section \<open>Box::copyMetrics\<close>

lemma assign_live:
  "h b = Some B \<Longrightarrow> h a = Some A \<Longrightarrow> assign sel upd a b h = Inr (h(a \<mapsto> upd (\<lambda>_. sel B) A))"
  by (simp add: assign_def deref_def)

text \<open>
  The four assignments in a row, also when \<open>a\<close> and \<open>b\<close> are one object: each
  assignment then reads a field it does not change.
\<close>

lemma copyMetrics_live:
  assumes "h a = Some A" and "h b = Some B"
  shows "copyMetrics a b h =
    Inr (h(a \<mapsto> A\<lparr>width := width B, height := height B, depth := depth B, shift := shift B\<rparr>))"
proof (cases "a = b")
  case True
  with assms have "B = A" by simp
  with assms True show ?thesis
    by (simp add: copyMetrics_def assign_live)
next
  case False
  with assms show ?thesis
    by (simp add: copyMetrics_def assign_live)
qed

text \<open>
  C4. For all live boxes \<open>A\<close> (at \<open>a\<close>) and \<open>B\<close> (at \<open>b\<close>), \<open>A.copyMetrics(B)\<close>
  returns; afterwards the width, height, depth and shift of the object at \<open>a\<close> are those
  of \<open>B\<close>, its class with its children or base is that of \<open>A\<close>, the object at \<open>b\<close>
  is \<open>B\<close> as before, and no object other than the one at \<open>a\<close> has changed.
\<close>

theorem copyMetrics_copies_metrics:
  assumes "h a = Some A" and "h b = Some B"
  shows "\<exists>h' A'. copyMetrics a b h = Inr h' \<and> h' a = Some A'
           \<and> width A' = width B \<and> height A' = height B \<and> depth A' = depth B
           \<and> shift A' = shift B \<and> kind A' = kind A
           \<and> h' b = Some B \<and> (\<forall>c. c \<noteq> a \<longrightarrow> h' c = h c)"
proof -
  let ?A' = "A\<lparr>width := width B, height := height B, depth := depth B, shift := shift B\<rparr>"
  have run: "copyMetrics a b h = Inr (h(a \<mapsto> ?A'))"
    using assms by (rule copyMetrics_live)
  have "(h(a \<mapsto> ?A')) b = Some B"
    using assms by (cases "a = b") auto
  with run show ?thesis by auto
qed

theorem copyMetrics_copies_metrics_witness:
  "example_heap 0 = Some example_group \<and> example_heap 1 = Some example_glyph
    \<and> (\<exists>h' A'. copyMetrics 0 1 example_heap = Inr h' \<and> h' 0 = Some A'
           \<and> width A' = 5 \<and> height A' = 6 \<and> depth A' = 1 \<and> shift A' = 4
           \<and> kind A' = BoxGroup [1, 2]
           \<and> h' 1 = Some example_glyph \<and> (\<forall>c. c \<noteq> 0 \<longrightarrow> h' c = example_heap c))"
proof -
  have a: "example_heap 0 = Some example_group" and b: "example_heap 1 = Some example_glyph"
    by (simp_all add: example_heap_at)
  from copyMetrics_copies_metrics [of example_heap 0 example_group 1 example_glyph] a b
  show ?thesis
    by (simp add: example_glyph_def example_group_def)
qed

text \<open>
  C10. For every live box \<open>A\<close>, the self-aliased call \<open>A.copyMetrics(A)\<close> returns and
  leaves the heap as it was: the width, height, depth and shift of \<open>A\<close> (and everything
  else) are unchanged.
\<close>

theorem copyMetrics_self:
  assumes "h a = Some A"
  shows "copyMetrics a a h = Inr h"
proof -
  let ?A' = "A\<lparr>width := width A, height := height A, depth := depth A, shift := shift A\<rparr>"
  have "copyMetrics a a h = Inr (h(a \<mapsto> ?A'))"
    using assms assms by (rule copyMetrics_live)
  moreover have "?A' = A"
    by simp
  moreover have "h(a \<mapsto> A) = h"
    using assms by (rule map_upd_triv)
  ultimately show ?thesis by simp
qed

theorem copyMetrics_self_witness:
  "example_heap 3 = Some example_decor \<and> copyMetrics 3 3 example_heap = Inr example_heap"
proof -
  have a: "example_heap 3 = Some example_decor"
    by (simp add: example_heap_at)
  from copyMetrics_self [of example_heap 3 example_decor] a show ?thesis by simp
qed

section \<open>BoxGroup::add\<close>

lemma group_children_live:
  "h g = Some t \<Longrightarrow> kind t = BoxGroup cs \<Longrightarrow> group_children h g = Inr cs"
  by (simp add: group_children_def deref_def)

lemma add_live:
  "h g = Some t \<Longrightarrow> kind t = BoxGroup cs \<Longrightarrow>
     add g b h = Inr (h(g \<mapsto> t\<lparr>kind := BoxGroup (cs @ [b])\<rparr>))"
  by (simp add: add_def deref_def)

lemma add_pos_live:
  "h g = Some t \<Longrightarrow> kind t = BoxGroup cs \<Longrightarrow>
     add_pos g p b h =
       (if 0 \<le> p \<and> p \<le> int (length cs)
        then Inr (h(g \<mapsto> t\<lparr>kind := BoxGroup (take (nat p) cs @ b # drop (nat p) cs)\<rparr>))
        else Inl UndefinedBehaviour)"
  by (simp add: add_pos_def deref_def)

text \<open>
  C7. For every live \<open>BoxGroup\<close> at \<open>g\<close> with children \<open>cs\<close> and every box \<open>b\<close>,
  \<open>add(b)\<close> returns; afterwards the group has one child more, its last child is \<open>b\<close>,
  the children before it are \<open>cs\<close>, the same pointers in the same order, and no other
  object has changed.
\<close>

theorem add_appends:
  assumes "h g = Some t" and "kind t = BoxGroup cs"
  shows "\<exists>h' cs'. add g b h = Inr h' \<and> group_children h' g = Inr cs'
           \<and> length cs' = length cs + 1 \<and> last cs' = b \<and> take (length cs) cs' = cs
           \<and> (\<forall>i < length cs. cs' ! i = cs ! i)
           \<and> (\<forall>c. c \<noteq> g \<longrightarrow> h' c = h c)"
proof -
  let ?h' = "h(g \<mapsto> t\<lparr>kind := BoxGroup (cs @ [b])\<rparr>)"
  have "add g b h = Inr ?h'"
    using assms by (rule add_live)
  moreover have "group_children ?h' g = Inr (cs @ [b])"
    by (simp add: group_children_def deref_def)
  moreover have "\<forall>i < length cs. (cs @ [b]) ! i = cs ! i"
    by (simp add: nth_append)
  ultimately show ?thesis by auto
qed

theorem add_appends_witness:
  "example_heap 0 = Some example_group \<and> kind example_group = BoxGroup [1, 2]
    \<and> (\<exists>h' cs'. add 0 4 example_heap = Inr h' \<and> group_children h' 0 = Inr cs'
           \<and> length cs' = length [1::nat, 2] + 1 \<and> last cs' = 4
           \<and> take (length [1::nat, 2]) cs' = [1, 2]
           \<and> (\<forall>i < length [1::nat, 2]. cs' ! i = [1, 2] ! i)
           \<and> (\<forall>c. c \<noteq> 0 \<longrightarrow> h' c = example_heap c))"
proof -
  have a: "example_heap 0 = Some example_group" and k: "kind example_group = BoxGroup [1, 2]"
    by (simp_all add: example_heap_at example_kinds)
  from add_appends [of example_heap 0 example_group "[1, 2]" 4, OF a k] a k show ?thesis
    by (intro conjI)
qed

text \<open>
  C6. For every live \<open>BoxGroup\<close> at \<open>g\<close> with children \<open>cs\<close> and every box \<open>b\<close>,
  \<open>add(n, b)\<close> with \<open>n\<close> the number of children does what \<open>add(b)\<close> does: both
  return, with the children \<open>cs\<close> followed by \<open>b\<close>.
\<close>

theorem add_pos_at_count_is_append:
  assumes "h g = Some t" and "kind t = BoxGroup cs"
  shows "add_pos g (int (length cs)) b h = add g b h
          \<and> add g b h = Inr (h(g \<mapsto> t\<lparr>kind := BoxGroup (cs @ [b])\<rparr>))"
  using assms by (simp add: add_live add_pos_live)

theorem add_pos_at_count_is_append_witness:
  "example_heap 0 = Some example_group \<and> kind example_group = BoxGroup [1, 2]
    \<and> add_pos 0 2 4 example_heap = add 0 4 example_heap
    \<and> add 0 4 example_heap
        = Inr (example_heap(0 \<mapsto> example_group\<lparr>kind := BoxGroup [1, 2, 4]\<rparr>))"
proof -
  have a: "example_heap 0 = Some example_group" and k: "kind example_group = BoxGroup [1, 2]"
    by (simp_all add: example_heap_at example_kinds)
  from add_pos_at_count_is_append [of example_heap 0 example_group "[1, 2]" 4] a k
  show ?thesis by simp
qed

text \<open>
  C1, as the spec states it: for a position \<open>p < 0\<close> or \<open>p > n\<close> the call \<open>add(p, box)\<close>
  fails with an indexing error. It does not. The group at 0 of the example heap has two
  children; at the positions 3 and \<open>- 1\<close> the call has undefined behaviour, and no
  out-of-range error is raised.
\<close>

theorem add_pos_raises_no_index_error:
  "add_pos 0 3 4 example_heap = Inl UndefinedBehaviour
    \<and> add_pos 0 3 4 example_heap \<noteq> Inl OutOfRange
    \<and> add_pos 0 (- 1) 4 example_heap = Inl UndefinedBehaviour
    \<and> add_pos 0 (- 1) 4 example_heap \<noteq> Inl OutOfRange"
  by (simp add: add_pos_live [of example_heap 0 example_group "[1, 2]"] example_heap_at
      example_kinds)

text \<open>
  C1, amended: for every live \<open>BoxGroup\<close> with \<open>n\<close> children and every position
  \<open>p < 0\<close> or \<open>p > n\<close>, the call \<open>add(p, box)\<close> is not checked: its behaviour is
  undefined, so no error is surfaced to the caller and nothing is promised about the
  children afterwards.
\<close>

theorem add_pos_out_of_range_undefined:
  assumes "h g = Some t" and "kind t = BoxGroup cs" and "p < 0 \<or> int (length cs) < p"
  shows "add_pos g p b h = Inl UndefinedBehaviour"
  using assms by (auto simp add: add_pos_live)

theorem add_pos_out_of_range_undefined_witness:
  "example_heap 0 = Some example_group \<and> kind example_group = BoxGroup [1, 2]
    \<and> ((3::int) < 0 \<or> int (length [1::nat, 2]) < 3)
    \<and> add_pos 0 3 4 example_heap = Inl UndefinedBehaviour"
proof -
  have a: "example_heap 0 = Some example_group" and k: "kind example_group = BoxGroup [1, 2]"
    by (simp_all add: example_heap_at example_kinds)
  from add_pos_out_of_range_undefined [of example_heap 0 example_group "[1, 2]" 3 4] a k
  show ?thesis by simp
qed

section \<open>lastFontId\<close>

subsection \<open>The index of the last child\<close>

lemma last_index_signed: "last_index n = signed_take_bit 31 (int n - 1)"
proof -
  have "(word_of_nat n :: 64 word) - 1 = word_of_int (int n - 1)"
    by simp
  then have "last_index n = sint (ucast (word_of_int (int n - 1) :: 64 word) :: 32 word)"
    by (simp only: last_index_def)
  also have "(ucast (word_of_int (int n - 1) :: 64 word) :: 32 word) = word_of_int (int n - 1)"
    by (rule ucast_down_wi) (simp add: is_down)
  also have "sint (word_of_int (int n - 1) :: 32 word) = signed_take_bit 31 (int n - 1)"
    unfolding sint_sbintrunc' by simp
  finally show ?thesis .
qed

text \<open>Up to \<open>2 ^ 31\<close> children the narrowing to \<open>int\<close> loses nothing.\<close>

lemma last_index_fits: "n \<le> 2 ^ 31 \<Longrightarrow> last_index n = int n - 1"
  unfolding last_index_signed
  by (rule signed_take_bit_int_eq_self) auto

text \<open>Whatever the number of children, the loop never starts beyond the last one.\<close>

lemma last_index_less: "last_index n < int n"
proof -
  have "- (2 ^ 31) \<le> int n - 1" by simp
  then have "signed_take_bit 31 (int n - 1) \<le> int n - 1"
    by (simp only: signed_take_bit_int_less_eq_self_iff)
  then show ?thesis unfolding last_index_signed by linarith
qed

subsection \<open>The loop\<close>

lemma loop_exit:
  "\<not> (0 \<le> i \<and> fid = NF) \<Longrightarrow> lastFontId_loop call NF this i fid h = Inr (fid, h)"
  by (subst lastFontId_loop.simps) auto

lemma loop_step:
  "0 \<le> i \<Longrightarrow> group_children h this = Inr cs \<Longrightarrow> nat i < length cs \<Longrightarrow>
   call (cs ! nat i) h = Inr (fid', h') \<Longrightarrow>
   lastFontId_loop call NF this i NF h = lastFontId_loop call NF this (i - 1) fid' h'"
  by (subst lastFontId_loop.simps) simp

lemma first_font_from_last_snoc:
  "first_font_from_last NF (fs @ [f]) = (if f \<noteq> NF then f else first_font_from_last NF fs)"
  by (simp add: first_font_from_last_def)

lemma first_font_from_last_Nil: "first_font_from_last NF [] = NF"
  by (simp add: first_font_from_last_def)

text \<open>
  The same in the spec's other words: when every result is the sentinel, the sentinel;
  when \<open>x\<close> is a font id and only sentinels follow it, \<open>x\<close>, whatever comes before.
\<close>

lemma first_font_from_last_all_sentinel:
  "\<forall>f \<in> set fs. f = NF \<Longrightarrow> first_font_from_last NF fs = NF"
  by (induction fs rule: rev_induct) (simp_all add: first_font_from_last_snoc
      first_font_from_last_Nil)

lemma first_font_from_last_found:
  "x \<noteq> NF \<Longrightarrow> first_font_from_last NF (fs @ x # replicate k NF) = x"
proof (induction k)
  case 0
  then show ?case
    using first_font_from_last_snoc [of NF fs x] by simp
next
  case (Suc k)
  have "fs @ x # replicate (Suc k) NF = (fs @ x # replicate k NF) @ [NF]"
    by (simp add: replicate_append_same)
  then show ?case
    using Suc first_font_from_last_snoc [of NF "fs @ x # replicate k NF" NF] by simp
qed

text \<open>
  What the loop returns from index \<open>k - 1\<close> downwards, when the calls on the children
  return the results \<open>fs\<close> and leave the heap as it is.
\<close>

lemma loop_scan:
  assumes "group_children h this = Inr cs" and "length fs = length cs"
    and "\<forall>j < length cs. call (cs ! j) h = Inr (fs ! j, h)"
  shows "k \<le> length cs \<Longrightarrow>
     lastFontId_loop call NF this (int k - 1) fid h =
       Inr (if fid \<noteq> NF then fid else first_font_from_last NF (take k fs), h)"
proof (induction k arbitrary: fid)
  case 0
  show ?case by (simp add: loop_exit first_font_from_last_Nil)
next
  case (Suc k)
  show ?case
  proof (cases "fid = NF")
    case False
    then show ?thesis by (simp add: loop_exit)
  next
    case True
    from Suc.prems have k: "k < length cs" by simp
    with assms have c: "call (cs ! k) h = Inr (fs ! k, h)" by simp
    have "lastFontId_loop call NF this (int (Suc k) - 1) NF h
        = lastFontId_loop call NF this (int (Suc k) - 1 - 1) (fs ! k) h"
      using assms(1) k c by (intro loop_step) simp_all
    also have "\<dots> = lastFontId_loop call NF this (int k - 1) (fs ! k) h"
      by simp
    also have "\<dots> = Inr (if fs ! k \<noteq> NF then fs ! k
                          else first_font_from_last NF (take k fs), h)"
      using k by (simp add: Suc.IH)
    also have "(if fs ! k \<noteq> NF then fs ! k else first_font_from_last NF (take k fs))
        = first_font_from_last NF (take (Suc k) fs)"
      using k assms(2) by (simp add: take_Suc_conv_app_nth first_font_from_last_snoc)
    finally show ?thesis using True by simp
  qed
qed

text \<open>The loop changes the heap only if a call on a child does.\<close>

lemma loop_pure:
  "(\<And>c h r h'. call c h = Inr (r, h') \<Longrightarrow> h' = h) \<Longrightarrow>
   lastFontId_loop call NF this i fid h = Inr (r, h') \<Longrightarrow> h' = h"
proof (induction call NF this i fid h rule: lastFontId_loop.induct)
  case (1 call NF this i fid h)
  show ?case
  proof (cases "0 \<le> i \<and> fid = NF")
    case False
    with "1.prems"(2) show ?thesis by (simp add: loop_exit)
  next
    case True
    from "1.prems"(2) True obtain cs fid1 h1 where
      gc: "group_children h this = Inr cs" and i: "nat i < length cs"
      and c: "call (cs ! nat i) h = Inr (fid1, h1)"
      and rest: "lastFontId_loop call NF this (i - 1) fid1 h1 = Inr (r, h')"
      by (subst (asm) lastFontId_loop.simps) (auto split: sum.splits if_splits)
    from c "1.prems"(1) have h1: "h1 = h" by blast
    from "1.IH" [OF True gc i c refl "1.prems"(1) rest] have "h' = h1" by simp
    with h1 show ?thesis by simp
  qed
qed

text \<open>A loop that returns still returns, with the same result, when the calls return more often.\<close>

lemma loop_mono:
  "(\<And>c h r. call c h = Inr r \<Longrightarrow> call' c h = Inr r) \<Longrightarrow>
   lastFontId_loop call NF this i fid h = Inr r \<Longrightarrow>
   lastFontId_loop call' NF this i fid h = Inr r"
proof (induction call NF this i fid h rule: lastFontId_loop.induct)
  case (1 call NF this i fid h)
  show ?case
  proof (cases "0 \<le> i \<and> fid = NF")
    case False
    with "1.prems"(2) show ?thesis by (simp add: loop_exit)
  next
    case True
    from "1.prems"(2) True obtain cs fid1 h1 where
      gc: "group_children h this = Inr cs" and i: "nat i < length cs"
      and c: "call (cs ! nat i) h = Inr (fid1, h1)"
      and rest: "lastFontId_loop call NF this (i - 1) fid1 h1 = Inr r"
      by (subst (asm) lastFontId_loop.simps) (auto split: sum.splits if_splits)
    from c "1.prems"(1) have c': "call' (cs ! nat i) h = Inr (fid1, h1)" by blast
    from "1.IH" [OF True gc i c refl "1.prems"(1) rest]
    have "lastFontId_loop call' NF this (i - 1) fid1 h1 = Inr r" .
    with True gc i c' show ?thesis
      by (subst lastFontId_loop.simps) simp
  qed
qed

subsection \<open>The virtual method\<close>

lemma lastFontId_group:
  assumes "h g = Some t" and "kind t = BoxGroup cs"
  shows "lastFontId NF (Suc n) g h =
     lastFontId_loop (lastFontId NF n) NF g (last_index (length cs)) NF h"
  using assms by (simp add: deref_def)

lemma lastFontId_decor:
  "h d = Some t \<Longrightarrow> kind t = DecorBox b \<Longrightarrow>
     lastFontId NF (Suc n) d h = lastFontId NF n b h"
  by (simp add: deref_def)

text \<open>A call that returns has left the heap as it was.\<close>

lemma lastFontId_pure:
  "lastFontId NF n a h = Inr (r, h') \<Longrightarrow> h' = h"
proof (induction n arbitrary: a h r h')
  case 0
  then show ?case by simp
next
  case (Suc n)
  from Suc.prems show ?case
    by (auto simp add: deref_def split: option.splits kind.splits
        dest: Suc.IH loop_pure [where call = "lastFontId NF n", rotated])
qed

text \<open>A call that returns within some depth returns the same within any greater depth.\<close>

lemma lastFontId_Suc_mono:
  "lastFontId NF n a h = Inr r \<Longrightarrow> lastFontId NF (Suc n) a h = Inr r"
proof (induction n arbitrary: a h r)
  case 0
  then show ?case by simp
next
  case (Suc n)
  show ?case
  proof (cases "h a")
    case None
    with Suc.prems show ?thesis by (simp add: deref_def)
  next
    case (Some t)
    show ?thesis
    proof (cases "kind t")
      case Box
      with Some Suc.prems show ?thesis by (simp add: deref_def)
    next
      case (GlyphBox f)
      with Some Suc.prems show ?thesis by (simp add: deref_def)
    next
      case (BoxGroup cs)
      with Some Suc.prems have
        "lastFontId_loop (lastFontId NF n) NF a (last_index (length cs)) NF h = Inr r"
        by (simp add: deref_def)
      then have
        "lastFontId_loop (lastFontId NF (Suc n)) NF a (last_index (length cs)) NF h = Inr r"
        by (rule loop_mono [rotated]) (rule Suc.IH)
      with Some BoxGroup show ?thesis by (simp add: deref_def)
    next
      case (DecorBox b)
      with Some Suc.prems have "lastFontId NF n b h = Inr r" by (simp add: deref_def)
      then have "lastFontId NF (Suc n) b h = Inr r" by (rule Suc.IH)
      with Some DecorBox show ?thesis by (simp add: deref_def)
    qed
  qed
qed

lemma lastFontId_mono:
  "n \<le> m \<Longrightarrow> lastFontId NF n a h = Inr r \<Longrightarrow> lastFontId NF m a h = Inr r"
  by (induction m rule: dec_induct) (auto dest: lastFontId_Suc_mono)

lemma lastFontId_unique:
  assumes "lastFontId NF n a h = Inr r" and "lastFontId NF m a h = Inr r'"
  shows "r' = r"
proof -
  from assms(1) have "lastFontId NF (max n m) a h = Inr r"
    by (rule lastFontId_mono [rotated]) simp
  moreover from assms(2) have "lastFontId NF (max n m) a h = Inr r'"
    by (rule lastFontId_mono [rotated]) simp
  ultimately show ?thesis by simp
qed

subsection \<open>On a box tree the query returns\<close>

text \<open>
  A group whose children all return, returns: whatever its number of children, the loop
  starts below it (\<open>last_index_less\<close>) and so reads inside the vector.
\<close>

lemma group_returns:
  assumes live: "h g = Some t" "kind t = BoxGroup cs"
    and kids: "\<forall>c \<in> set cs. \<exists>r. lastFontId NF N c h = Inr (r, h)"
  shows "\<exists>r. lastFontId NF (Suc N) g h = Inr (r, h)"
proof -
  from kids obtain f where f: "\<forall>c \<in> set cs. lastFontId NF N c h = Inr (f c, h)"
    by metis
  let ?fs = "map f cs"
  let ?i = "last_index (length cs)"
  have gc: "group_children h g = Inr cs"
    using live by (simp add: group_children_def deref_def)
  have calls: "\<forall>j < length cs. lastFontId NF N (cs ! j) h = Inr (?fs ! j, h)"
    using f by simp
  have run: "lastFontId NF (Suc N) g h = lastFontId_loop (lastFontId NF N) NF g ?i NF h"
    using lastFontId_group [of h g t cs NF N] live by simp
  show ?thesis
  proof (cases "0 \<le> ?i")
    case False
    then show ?thesis unfolding run by (simp add: loop_exit)
  next
    case True
    let ?k = "nat (?i + 1)"
    from True have i: "int ?k - 1 = ?i" by simp
    have k: "?k \<le> length cs" using last_index_less [of "length cs"] by simp
    have "lastFontId_loop (lastFontId NF N) NF g (int ?k - 1) NF h
        = Inr (first_font_from_last NF (take ?k ?fs), h)"
      using loop_scan [of h g cs ?fs "lastFontId NF N" ?k NF NF] gc calls k by simp
    then show ?thesis unfolding run i by blast
  qed
qed

lemma box_tree_returns:
  "box_tree d h a \<Longrightarrow> \<exists>r. lastFontId NF d a h = Inr (r, h)"
proof (induction d arbitrary: a)
  case 0
  then show ?case by simp
next
  case (Suc d)
  from Suc.prems obtain t where t: "h a = Some t"
    by (auto split: option.splits)
  show ?case
  proof (cases "kind t")
    case Box
    with t show ?thesis by (simp add: deref_def)
  next
    case (GlyphBox f)
    with t show ?thesis by (simp add: deref_def)
  next
    case (BoxGroup cs)
    with t Suc.prems have "\<forall>c \<in> set cs. box_tree d h c"
      by (simp add: list_all_iff)
    then have "\<forall>c \<in> set cs. \<exists>r. lastFontId NF d c h = Inr (r, h)"
      using Suc.IH by blast
    with t BoxGroup show ?thesis by (rule group_returns)
  next
    case (DecorBox b)
    with t Suc.prems have "box_tree d h b" by simp
    then obtain r where "lastFontId NF d b h = Inr (r, h)"
      using Suc.IH by blast
    with t DecorBox show ?thesis by (simp add: deref_def)
  qed
qed

subsection \<open>The query of a group\<close>

lemma example_lastFontId:
  "lastFontId (- 1) (Suc 0) 1 example_heap = Inr (5, example_heap)"
  "lastFontId (- 1) (Suc 0) 2 example_heap = Inr (- 1, example_heap)"
  "lastFontId (- 1) (Suc (Suc 0)) 0 example_heap = Inr (5, example_heap)"
  by (simp_all add: example_heap_at example_kinds deref_def group_children_def
      lastFontId_loop.simps last_index_fits)

text \<open>
  C3. For every live \<open>BoxGroup\<close> (of at most \<open>2 ^ 31\<close> children, the range of the
  \<open>int\<close> loop index) whose children's \<open>lastFontId()\<close> calls return the results \<open>fs\<close>,
  in child order, \<open>lastFontId()\<close> returns the first result that is not the sentinel,
  scanning \<open>fs\<close> from the last child to the first, and the sentinel when every child
  yields the sentinel or the group has no children.
\<close>

theorem BoxGroup_lastFontId_scans_from_last:
  assumes "h g = Some t" and "kind t = BoxGroup cs" and "length cs \<le> 2 ^ 31"
    and "list_all2 (\<lambda>c f. lastFontId NF n c h = Inr (f, h)) cs fs"
  shows "lastFontId NF (Suc n) g h = Inr (first_font_from_last NF fs, h)"
proof -
  from assms(4) have len: "length fs = length cs"
    and calls: "\<forall>j < length cs. lastFontId NF n (cs ! j) h = Inr (fs ! j, h)"
    by (simp_all add: list_all2_conv_all_nth)
  have gc: "group_children h g = Inr cs"
    using assms(1,2) by (simp add: group_children_def deref_def)
  have "lastFontId NF (Suc n) g h =
      lastFontId_loop (lastFontId NF n) NF g (int (length cs) - 1) NF h"
    using lastFontId_group [of h g t cs NF n] assms(1,2) last_index_fits [OF assms(3)]
    by simp
  also have "\<dots> = Inr (first_font_from_last NF (take (length cs) fs), h)"
    using loop_scan [of h g cs fs "lastFontId NF n" "length cs" NF NF] gc len calls by simp
  finally show ?thesis using len by simp
qed

theorem BoxGroup_lastFontId_scans_from_last_witness:
  "example_heap 0 = Some example_group \<and> kind example_group = BoxGroup [1, 2]
    \<and> length [1::nat, 2] \<le> 2 ^ 31
    \<and> list_all2 (\<lambda>c f. lastFontId (- 1) (Suc 0) c example_heap = Inr (f, example_heap))
          [1, 2] [5, - 1]
    \<and> lastFontId (- 1) (Suc (Suc 0)) 0 example_heap
        = Inr (first_font_from_last (- 1) [5, - 1], example_heap)
    \<and> first_font_from_last (- 1) [5, - 1] = 5"
proof -
  have a: "example_heap 0 = Some example_group" and k: "kind example_group = BoxGroup [1, 2]"
    by (simp_all add: example_heap_at example_kinds)
  have l: "length [1::nat, 2] \<le> 2 ^ 31" by simp
  have c: "list_all2 (\<lambda>c f. lastFontId (- 1) (Suc 0) c example_heap = Inr (f, example_heap))
      [1, 2] [5, - 1]"
    using example_lastFontId by simp
  have f: "first_font_from_last (- 1) [5, - 1] = 5"
    by (simp add: first_font_from_last_def)
  from BoxGroup_lastFontId_scans_from_last
    [of example_heap 0 example_group "[1, 2]" "- 1" "Suc 0" "[5, - 1]"] a k l c f
  show ?thesis by (intro conjI) simp_all
qed

text \<open>
  C2, as the spec states it: a group whose two children, in order, yield 5 and
  \<open>NO_FONT\<close> yields \<open>NO_FONT\<close>. It does not. With the sentinel \<open>- 1\<close>, the group at 0
  of the example heap has the children 1 (which yields 5) and 2 (which yields the
  sentinel), and yields 5.
\<close>

theorem BoxGroup_lastFontId_last_child_does_not_win:
  "example_heap 0 = Some example_group \<and> kind example_group = BoxGroup [1, 2]
    \<and> lastFontId (- 1) (Suc 0) 1 example_heap = Inr (5, example_heap)
    \<and> lastFontId (- 1) (Suc 0) 2 example_heap = Inr (- 1, example_heap)
    \<and> lastFontId (- 1) (Suc (Suc 0)) 0 example_heap = Inr (5, example_heap)
    \<and> lastFontId (- 1) (Suc (Suc 0)) 0 example_heap \<noteq> Inr (- 1, example_heap)"
  using example_lastFontId example_heap_at example_kinds by simp

text \<open>
  C2, amended: for a \<open>BoxGroup\<close> whose two children, in order, have the
  \<open>lastFontId()\<close> results 5 and \<open>NO_FONT\<close>, the group's \<open>lastFontId()\<close> returns 5: the
  last child yields the sentinel and is skipped, the font id of the child before it is
  the result.
\<close>

theorem BoxGroup_lastFontId_skips_trailing_sentinel:
  assumes "h g = Some t" and "kind t = BoxGroup [c1, c2]"
    and "lastFontId NF n c1 h = Inr (5, h)" and "lastFontId NF n c2 h = Inr (NF, h)"
  shows "lastFontId NF (Suc n) g h = Inr (5, h)"
proof -
  let ?cs = "[c1, c2]" and ?fs = "[5, NF]"
  have gc: "group_children h g = Inr ?cs"
    using assms(1,2) by (simp add: group_children_def deref_def)
  have calls: "\<forall>j < length ?cs. lastFontId NF n (?cs ! j) h = Inr (?fs ! j, h)"
    using assms(3,4) by (auto simp add: less_Suc_eq)
  have "lastFontId NF (Suc n) g h =
      lastFontId_loop (lastFontId NF n) NF g (int (length ?cs) - 1) NF h"
    using lastFontId_group [of h g t ?cs NF n] assms(1,2) last_index_fits [of "length ?cs"]
    by simp
  also have "\<dots> = Inr (first_font_from_last NF (take (length ?cs) ?fs), h)"
    using loop_scan [of h g ?cs ?fs "lastFontId NF n" "length ?cs" NF NF] gc calls by simp
  finally show ?thesis by (simp add: first_font_from_last_def)
qed

theorem BoxGroup_lastFontId_skips_trailing_sentinel_witness:
  "example_heap 0 = Some example_group \<and> kind example_group = BoxGroup [1, 2]
    \<and> lastFontId (- 1) (Suc 0) 1 example_heap = Inr (5, example_heap)
    \<and> lastFontId (- 1) (Suc 0) 2 example_heap = Inr (- 1, example_heap)
    \<and> lastFontId (- 1) (Suc (Suc 0)) 0 example_heap = Inr (5, example_heap)"
proof -
  have a: "example_heap 0 = Some example_group" and k: "kind example_group = BoxGroup [1, 2]"
    by (simp_all add: example_heap_at example_kinds)
  note c = example_lastFontId(1,2)
  from BoxGroup_lastFontId_skips_trailing_sentinel
    [of example_heap 0 example_group 1 2 "- 1" "Suc 0"] a k c
  show ?thesis by simp
qed

subsection \<open>The query of a decoration\<close>

text \<open>A \<open>DecorBox\<close> wraps its base: the case of no further wrapper in between.\<close>

lemma wrapped_direct:
  "h d = Some t \<Longrightarrow> kind t = DecorBox b \<Longrightarrow> wrapped h (Suc 0) d b"
  by simp

text \<open>
  C5. For every \<open>DecorBox\<close> at \<open>d\<close> that wraps \<open>b\<close>, directly (\<open>k = 0\<close>) or through
  \<open>k\<close> further \<open>DecorBox\<close> wrappers, \<open>lastFontId()\<close> on \<open>d\<close> ends exactly as
  \<open>lastFontId()\<close> on \<open>b\<close> does, whatever \<open>b\<close> is: the same result and the same heap
  when the call on \<open>b\<close> returns, the same failure when it does not. Each wrapper adds
  one nested call.
\<close>

theorem DecorBox_lastFontId_delegates:
  "wrapped h (Suc k) d b \<Longrightarrow> lastFontId NF (Suc k + n) d h = lastFontId NF n b h"
proof (induction k arbitrary: d)
  case 0
  then show ?case
    by (auto simp add: deref_def split: option.splits kind.splits)
next
  case (Suc k)
  from Suc.prems obtain t d' where d: "h d = Some t" "kind t = DecorBox d'"
    and w: "wrapped h (Suc k) d' b"
    by (auto split: option.splits kind.splits)
  have "lastFontId NF (Suc (Suc k) + n) d h = lastFontId NF (Suc (Suc k + n)) d h"
    by simp
  also have "\<dots> = lastFontId NF (Suc k + n) d' h"
    using lastFontId_decor [of h d t d' NF "Suc k + n"] d by blast
  also have "\<dots> = lastFontId NF n b h"
    using w by (rule Suc.IH)
  finally show ?case .
qed

theorem DecorBox_lastFontId_delegates_witness:
  "wrapped example_heap (Suc (Suc 0)) 4 0
    \<and> lastFontId (- 1) (Suc (Suc 0) + Suc (Suc 0)) 4 example_heap
        = lastFontId (- 1) (Suc (Suc 0)) 0 example_heap
    \<and> lastFontId (- 1) (Suc (Suc 0)) 0 example_heap = Inr (5, example_heap)"
proof -
  have w: "wrapped example_heap (Suc (Suc 0)) 4 0"
    by (simp add: example_heap_at example_kinds)
  from DecorBox_lastFontId_delegates [of example_heap "Suc 0" 4 0 "- 1" "Suc (Suc 0)"] w
    example_lastFontId(3)
  show ?thesis by (intro conjI)
qed

subsection \<open>The query changes nothing\<close>

text \<open>
  C8. On every box tree \<open>lastFontId()\<close> is a pure query. The call returns (within the
  height of the tree, and so within every greater depth) and returns the heap it was
  given: no box has changed. Calling it twice in a row, the second time on the heap the
  first call returned, gives the same result both times; and whatever depth a call is
  given, if it returns, it returns that result and the unchanged heap.
\<close>

theorem lastFontId_pure_query:
  assumes "box_tree d h a"
  shows "\<exists>r. (\<forall>m \<ge> d. lastFontId NF m a h = Inr (r, h))
           \<and> (\<forall>m \<ge> d. andThen (lastFontId NF m a h) (\<lambda>(r1, h1).
                          andThen (lastFontId NF m a h1) (\<lambda>(r2, h2). Inr (r1, r2, h2)))
                        = Inr (r, r, h))
           \<and> (\<forall>m r' h'. lastFontId NF m a h = Inr (r', h') \<longrightarrow> r' = r \<and> h' = h)"
proof -
  from assms obtain r where d: "lastFontId NF d a h = Inr (r, h)"
    using box_tree_returns by blast
  have always: "\<forall>m \<ge> d. lastFontId NF m a h = Inr (r, h)"
    using d by (auto intro: lastFontId_mono)
  then have "\<forall>m \<ge> d. andThen (lastFontId NF m a h) (\<lambda>(r1, h1).
                          andThen (lastFontId NF m a h1) (\<lambda>(r2, h2). Inr (r1, r2, h2)))
                        = Inr (r, r, h)"
    by simp
  moreover have "\<forall>m r' h'. lastFontId NF m a h = Inr (r', h') \<longrightarrow> r' = r \<and> h' = h"
    using d by (auto dest: lastFontId_unique lastFontId_pure)
  ultimately show ?thesis using always by blast
qed

theorem lastFontId_pure_query_witness:
  "box_tree (Suc (Suc (Suc (Suc 0)))) example_heap 4
    \<and> (\<exists>r. (\<forall>m \<ge> Suc (Suc (Suc (Suc 0))).
                lastFontId (- 1) m 4 example_heap = Inr (r, example_heap))
           \<and> (\<forall>m \<ge> Suc (Suc (Suc (Suc 0))).
                andThen (lastFontId (- 1) m 4 example_heap) (\<lambda>(r1, h1).
                andThen (lastFontId (- 1) m 4 h1) (\<lambda>(r2, h2). Inr (r1, r2, h2)))
                  = Inr (r, r, example_heap))
           \<and> (\<forall>m r' h'. lastFontId (- 1) m 4 example_heap = Inr (r', h')
                 \<longrightarrow> r' = r \<and> h' = example_heap))"
proof -
  have t: "box_tree (Suc (Suc (Suc (Suc 0)))) example_heap 4"
    by (simp add: example_heap_at example_kinds)
  from lastFontId_pure_query [of "Suc (Suc (Suc (Suc 0)))" example_heap 4 "- 1"] t
  show ?thesis by (intro conjI)
qed

end
